theory Spec2Isabelle
  imports Complex_Main "HOL-Library.Sublist"
begin

section \<open>Python strings\<close>

text \<open>
  \<open>str.replace(old, new)\<close>: the occurrences of \<open>old\<close> are found from the left and do not
  overlap. With an empty \<open>old\<close>, Python puts \<open>new\<close> before every character and at the end.
\<close>

function py_replace :: "string \<Rightarrow> string \<Rightarrow> string \<Rightarrow> string" where
  "py_replace old new s =
     (if old = [] then new @ concat (map (\<lambda>c. c # new) s)
      else if s = [] then []
      else if prefix old s then new @ py_replace old new (drop (length old) s)
      else hd s # py_replace old new (tl s))"
  by pat_completeness auto
termination
  by (relation "measure (\<lambda>(old, new, s). length s)") auto

declare py_replace.simps [simp del]

text \<open>\<open>sub in s\<close>: \<open>sub\<close> occurs in \<open>s\<close> as a contiguous piece.\<close>

fun contains :: "string \<Rightarrow> string \<Rightarrow> bool" where
  "contains sub [] = (sub = [])"
| "contains sub (c # cs) = (prefix sub (c # cs) \<or> contains sub cs)"

text \<open>\<open>sep.join(parts)\<close>.\<close>

fun py_join :: "string \<Rightarrow> string list \<Rightarrow> string" where
  "py_join sep [] = []"
| "py_join sep [x] = x"
| "py_join sep (x # y # ys) = x @ sep @ py_join sep (y # ys)"

text \<open>
  A \<open>string\<close> holds a Python \<open>str\<close> as its UTF-8 bytes, the form in which the log files
  keep their text: a character below U+0080 is one byte, any other character a lead byte
  and one to three continuation bytes. The functions above work on the bytes as on the
  characters, their patterns being ASCII. \<open>code_points\<close> reads the characters of a string
  back, as numbers; a byte that starts no complete sequence (there is none in text that
  Python has read) is kept as the character of its own number.
\<close>

definition continuation :: "char \<Rightarrow> bool" where
  "continuation c = (0x80 \<le> (of_char c :: nat) \<and> (of_char c :: nat) < 0xC0)"

text \<open>The number of continuation bytes a lead byte announces, and the bits it carries.\<close>

definition followers :: "char \<Rightarrow> nat" where
  "followers c =
     (let b = of_char c :: nat
      in if b < 0xC0 then 0 else if b < 0xE0 then 1 else if b < 0xF0 then 2
         else if b < 0xF8 then 3 else 0)"

definition lead_bits :: "char \<Rightarrow> nat" where
  "lead_bits c =
     (let b = of_char c :: nat
      in if b < 0xE0 then b - 0xC0 else if b < 0xF0 then b - 0xE0 else b - 0xF0)"

function code_points :: "string \<Rightarrow> nat list" where
  "code_points [] = []"
| "code_points (c # cs) =
     (let n = followers c; tail = take n cs
      in if n \<noteq> 0 \<and> length tail = n \<and> list_all continuation tail
         then foldl (\<lambda>a t. a * 64 + (of_char t - 0x80)) (lead_bits c) tail
                # code_points (drop n cs)
         else of_char c # code_points cs)"
  by pat_completeness auto
termination
  by (relation "measure length") auto

text \<open>
  \<open>str.isspace\<close> of one character: the 29 characters that Python counts as white space,
  which are the ones \<open>str.strip()\<close> removes. \<open>line.strip()\<close> is empty, and the line skipped
  at line 122, exactly when every character of the line is one of them.
\<close>

definition py_isspace :: "nat \<Rightarrow> bool" where
  "py_isspace cp =
     (cp \<in> set [0x09, 0x0A, 0x0B, 0x0C, 0x0D, 0x1C, 0x1D, 0x1E, 0x1F, 0x20, 0x85, 0xA0,
                 0x1680, 0x2000, 0x2001, 0x2002, 0x2003, 0x2004, 0x2005, 0x2006, 0x2007,
                 0x2008, 0x2009, 0x200A, 0x2028, 0x2029, 0x202F, 0x205F, 0x3000])"

definition blank :: "string \<Rightarrow> bool" where
  "blank line = list_all py_isspace (code_points line)"

definition nl :: string where
  "nl = [CHR 0x0A]"

section \<open>Slugs (\<open>app.py\<close>, lines 63 to 72)\<close>

definition normalize_version :: "string \<Rightarrow> string" where
  "normalize_version version = py_replace ''.'' ''-dot-'' version"

definition get_slug :: "string \<Rightarrow> string \<Rightarrow> string" where
  "get_slug project version =
     (if version \<noteq> [] then project @ ''-'' @ normalize_version version else project)"

text \<open>What \<open>normalize_version\<close> does to one character.\<close>

definition dot_to_marker :: "char \<Rightarrow> string" where
  "dot_to_marker c = (if c = CHR ''.'' then ''-dot-'' else [c])"

section \<open>Python floats\<close>

text \<open>
  A Python \<open>float\<close> is an IEEE 754 binary64 number. \<open>Finite m e\<close> stands for the number
  \<open>m\<close> times two to the power \<open>e\<close>; a double has a significand \<open>m\<close> of at most 53 binary
  digits and a last place \<open>e\<close> from \<open>-1074\<close> to 971, and the operations below return such
  numbers. The sign of a zero is not kept: no comparison and no division by a length
  depends on it. Every operation gives the exact result rounded to the nearest double,
  ties to the even significand, as the hardware does.
\<close>

datatype double = Finite int int | PosInf | NegInf | NaN

text \<open>\<open>scale m e k\<close> is the integer \<open>m\<close> times two to the power \<open>e - k\<close>, for \<open>k\<close> at most \<open>e\<close>.\<close>

definition scale :: "int \<Rightarrow> int \<Rightarrow> int \<Rightarrow> int" where
  "scale m e k = m * 2 ^ nat (e - k)"

text \<open>\<open>x < y\<close> and \<open>x <= y\<close> on floats: false as soon as one side is not a number.\<close>

fun dlt :: "double \<Rightarrow> double \<Rightarrow> bool" where
  "dlt NaN y = False"
| "dlt x NaN = False"
| "dlt PosInf y = False"
| "dlt x NegInf = False"
| "dlt NegInf y = True"
| "dlt x PosInf = True"
| "dlt (Finite m1 e1) (Finite m2 e2)
     = (scale m1 e1 (min e1 e2) < scale m2 e2 (min e1 e2))"


text \<open>The number of binary digits of a positive integer.\<close>

function bitlen :: "int \<Rightarrow> nat" where
  "bitlen a = (if a \<le> 0 then 0 else Suc (bitlen (a div 2)))"
  by pat_completeness auto
termination
  by (relation "measure nat") auto

declare bitlen.simps [simp del]

text \<open>The integer nearest to \<open>num / den\<close>, the even one of two that are equally near
  (\<open>num\<close> not negative, \<open>den\<close> positive).\<close>

definition round_half_even :: "int \<Rightarrow> int \<Rightarrow> int" where
  "round_half_even num den =
     (let fl = num div den; r = num mod den
      in if 2 * r < den then fl
         else if den < 2 * r then fl + 1
         else if even fl then fl else fl + 1)"

text \<open>The integer part of the binary logarithm of \<open>a / q\<close>, for positive \<open>a\<close> and \<open>q\<close>: the
  difference of the digit counts or one less.\<close>

definition floor_log2 :: "int \<Rightarrow> int \<Rightarrow> int" where
  "floor_log2 a q =
     (let d = int (bitlen a) - int (bitlen q)
      in if (if 0 \<le> d then q * 2 ^ nat d \<le> a else q \<le> a * 2 ^ nat (- d)) then d else d - 1)"

text \<open>
  The double nearest to \<open>p / q\<close> times two to the power \<open>e\<close> (\<open>q\<close> positive): a significand
  of 53 binary digits, the last place no finer than two to the power \<open>-1074\<close>, and an
  infinity from two to the power 1024 on. A significand that rounds up to two to the
  power 53 moves to the next last place.
\<close>

definition round_double :: "int \<Rightarrow> int \<Rightarrow> int \<Rightarrow> double" where
  "round_double p q e =
     (if p = 0 then Finite 0 0
      else
        let a = \<bar>p\<bar>;
            ev = floor_log2 a q + e;
            qe = max ev (- 1022) - 52;
            t = e - qe;
            n = (if 0 \<le> t then round_half_even (a * 2 ^ nat t) q
                 else round_half_even a (q * 2 ^ nat (- t)))
        in if 1024 \<le> ev \<or> (ev = 1023 \<and> 2 ^ 53 \<le> n)
           then (if 0 < p then PosInf else NegInf)
           else if n = 2 ^ 53 then Finite (sgn p * 2 ^ 52) (qe + 1)
           else Finite (sgn p * n) qe)"

text \<open>\<open>x + y\<close> on floats.\<close>

fun fadd :: "double \<Rightarrow> double \<Rightarrow> double" where
  "fadd NaN y = NaN"
| "fadd x NaN = NaN"
| "fadd PosInf NegInf = NaN"
| "fadd NegInf PosInf = NaN"
| "fadd PosInf y = PosInf"
| "fadd x PosInf = PosInf"
| "fadd NegInf y = NegInf"
| "fadd x NegInf = NegInf"
| "fadd (Finite m1 e1) (Finite m2 e2)
     = round_double (scale m1 e1 (min e1 e2) + scale m2 e2 (min e1 e2)) 1 (min e1 e2)"

text \<open>
  \<open>x / y\<close> on floats, for a divisor that is not zero. On a zero divisor Python raises
  \<open>ZeroDivisionError\<close>; the one division of the program, at line 201, divides by the
  length of a list that line 200 has found non-empty, and \<open>NaN\<close> stands in for the case
  that cannot arise.
\<close>

fun fdiv :: "double \<Rightarrow> double \<Rightarrow> double" where
  "fdiv (Finite m1 e1) (Finite m2 e2)
     = (if m2 = 0 then NaN else round_double (m1 * sgn m2) \<bar>m2\<bar> (e1 - e2))"
| "fdiv PosInf (Finite m2 e2) = (if 0 < m2 then PosInf else if m2 < 0 then NegInf else NaN)"
| "fdiv NegInf (Finite m2 e2) = (if 0 < m2 then NegInf else if m2 < 0 then PosInf else NaN)"
| "fdiv (Finite m1 e1) PosInf = Finite 0 0"
| "fdiv (Finite m1 e1) NegInf = Finite 0 0"
| "fdiv x y = NaN"

text \<open>The float of a length, to which Python converts the integer divisor of a float.\<close>

definition float_of_nat :: "nat \<Rightarrow> double" where
  "float_of_nat n = round_double (int n) 1 0"

text \<open>
  \<open>sum(xs)\<close> of a list of floats: the additions from left to right, from zero, each one
  rounded. (From version 3.12 on CPython also carries a correction term; on the lists
  evaluated below the additions are exact or ties, and the term changes nothing.)
\<close>

definition py_sum :: "double list \<Rightarrow> double" where
  "py_sum xs = foldl fadd (Finite 0 0) xs"




definition d09 :: double where
  "d09 = Finite 8106479329266893 (- 53)"

definition d05 :: double where
  "d05 = Finite 1 (- 1)"

definition d01 :: double where
  "d01 = Finite 3602879701896397 (- 55)"

section \<open>Data model\<close>

datatype error =
    ValueError | JSONDecodeError | KeyError | TypeError | ValidationError
  | OSError | ProviderError

text \<open>The values \<open>json.loads\<close> returns; an object keeps its members as an association list.\<close>

datatype json =
    JNull | JBool bool | JInt int | JFloat double | JStr string | JArr "json list"
  | JObj "(string \<times> json) list"

type_synonym metadata = "(string \<times> json) list"

text \<open>
  \<open>Document(text=..., metadata=..., doc_id=...)\<close>; \<open>doc_id = None\<close> when the caller
  passes no identifier.
\<close>

record document =
  doc_text :: string
  doc_metadata :: metadata
  doc_id :: "string option"

text \<open>\<open>NodeWithScore\<close>: a chunk and the similarity score of one query, which may be absent.
  Scores are Python floats.\<close>

record node_with_score =
  node :: document
  score :: "double option"

text \<open>A \<open>VectorStoreIndex\<close> is modelled by the documents it holds, in insertion order.\<close>

type_synonym index = "document list"

type_synonym message = "string \<times> string"

type_synonym jsonl_file = "string \<times> string list"

text \<open>The configuration read from the environment (lines 43 to 47).\<close>

record config =
  MIN_HITS :: int
  SIMILARITY_CUTOFF :: double
  CONFIDENCE_THRESHOLD :: double
  TOP_K :: int
  TEMPERATURE :: double

text \<open>
  The collaborators the server calls and does not implement:
  \<^item> \<open>retrieve idx k query\<close> is \<open>idx.as_retriever(similarity_top_k=k).retrieve(query)\<close>;
  \<^item> \<open>generate temperature prompt\<close> is the Gemini call of \<open>generate_with_gemini\<close>;
  \<^item> \<open>json_loads\<close> and \<open>json_dumps\<close> are the \<open>json\<close> module (\<open>None\<close>: the text does not parse);
  \<^item> \<open>uuid4 n\<close> is the string of the \<open>n\<close>-th \<open>uuid.uuid4()\<close> of the process;
  \<^item> \<open>now_date\<close> and \<open>now_iso\<close> are the two readings of \<open>datetime.now()\<close> in
    \<open>append_to_jsonl\<close>;
  \<^item> \<open>log_writable\<close> says whether opening the log file for appending and writing the line
    succeeds. Failures of the embedding service and of index persistence are not modelled.
\<close>

record env =
  retrieve :: "index \<Rightarrow> int \<Rightarrow> string \<Rightarrow> node_with_score list"
  generate :: "double \<Rightarrow> string \<Rightarrow> error + string"
  json_loads :: "string \<Rightarrow> json option"
  json_dumps :: "json \<Rightarrow> string"
  uuid4 :: "nat \<Rightarrow> string"
  now_date :: string
  now_iso :: string
  log_writable :: bool

text \<open>
  The process-wide registries (lines 30 to 32) and the directories the server owns:
  \<^item> \<open>thread_files\<close>: \<open>STATE_ROOT/threads/<thread_slug>.json\<close>;
  \<^item> \<open>inject_files\<close>: the directories under \<open>INJECT_ROOT\<close>, each with its files in the order
    \<open>glob\<close> lists them, a file being its name and its lines;
  \<^item> \<open>delta_store\<close>: the directories under \<open>DELTA_ROOT\<close>; \<open>Some None\<close> is a directory whose
    index does not load;
  \<^item> \<open>gen_calls\<close>: the prompts sent to the generation service so far;
  \<^item> \<open>uuid_count\<close>: how many identifiers \<open>uuid.uuid4()\<close> has handed out.
\<close>

record server_state =
  indexes :: "string \<rightharpoonup> index"
  delta_indexes :: "string \<rightharpoonup> index"
  threads :: "string \<rightharpoonup> message list"
  thread_files :: "string \<rightharpoonup> message list"
  inject_files :: "string list \<rightharpoonup> jsonl_file list"
  delta_store :: "string \<rightharpoonup> index option"
  gen_calls :: "string list"
  uuid_count :: nat

text \<open>The body of a request, \<open>request.json\<close>; \<open>None\<close> is what \<open>data.get\<close> returns for a
  missing key. Field values are strings.\<close>

record request =
  req_project :: "string option"
  req_version :: "string option"
  req_thread_slug :: "string option"
  req_message :: "string option"
  req_textContent :: "string option"
  req_metadata :: "metadata option"

text \<open>A handler returns a JSON body with a status, or an exception leaves it (status 500).\<close>

datatype response =
    TextResponse string
  | StatusOk
  | ErrorResponse nat string
  | InternalError error

text \<open>Truth value of a field inside \<open>all([...])\<close>, and the string of a present field.\<close>

definition truthy :: "string option \<Rightarrow> bool" where
  "truthy x = (case x of None \<Rightarrow> False | Some s \<Rightarrow> s \<noteq> [])"

definition str_of :: "string option \<Rightarrow> string" where
  "str_of x = (case x of None \<Rightarrow> [] | Some s \<Rightarrow> s)"

section \<open>Thread memory (lines 75 to 90)\<close>

definition load_thread_memory :: "server_state \<Rightarrow> string \<Rightarrow> message list" where
  "load_thread_memory st slug = (case thread_files st slug of Some ms \<Rightarrow> ms | None \<Rightarrow> [])"

definition save_thread_memory :: "server_state \<Rightarrow> string \<Rightarrow> message list \<Rightarrow> server_state" where
  "save_thread_memory st slug messages = st\<lparr>thread_files := (thread_files st)(slug \<mapsto> messages)\<rparr>"

section \<open>Injection log (lines 93 to 130)\<close>

text \<open>\<open>Path(INJECT_ROOT) / project / normalize_version(version)\<close>, as the segments joined
  to the root.\<close>

definition inject_dir :: "string \<Rightarrow> string \<Rightarrow> string list" where
  "inject_dir project version = [project, normalize_version version]"

text \<open>The dictionary \<open>record\<close> of lines 101 to 106, given the identifier drawn for it.\<close>

definition injection_record :: "env \<Rightarrow> string \<Rightarrow> string \<Rightarrow> metadata \<Rightarrow> json" where
  "injection_record e ident txt md =
     JObj [(''id'', JStr ident), (''timestamp'', JStr (now_iso e)),
           (''text'', JStr txt), (''metadata'', JObj md)]"

text \<open>Opening a file of a directory in mode \<open>'a'\<close> and writing one line.\<close>

fun append_line :: "string \<Rightarrow> string \<Rightarrow> jsonl_file list \<Rightarrow> jsonl_file list" where
  "append_line name line [] = [(name, [line])]"
| "append_line name line ((n, ls) # fs) =
     (if n = name then (n, ls @ [line]) # fs else (n, ls) # append_line name line fs)"

definition append_to_jsonl ::
  "env \<Rightarrow> server_state \<Rightarrow> string \<Rightarrow> string \<Rightarrow> string \<Rightarrow> metadata
     \<Rightarrow> (error + unit) \<times> server_state" where
  "append_to_jsonl e st project version txt md =
     (let dir = inject_dir project version;
          files = (case inject_files st dir of None \<Rightarrow> [] | Some fs \<Rightarrow> fs);
          st1 = st\<lparr>inject_files := (inject_files st)(dir \<mapsto> files)\<rparr>;
          name = now_date e @ ''.jsonl'';
          rec = injection_record e (uuid4 e (uuid_count st1)) txt md;
          st2 = st1\<lparr>uuid_count := uuid_count st1 + 1\<rparr>
      in if log_writable e
         then (Inr (),
               st2\<lparr>inject_files :=
                     (inject_files st2)(dir \<mapsto> append_line name (json_dumps e rec @ nl) files)\<rparr>)
         else (Inl OSError, st2))"

text \<open>
  Lines 123 to 128 for one line of a log file: \<open>json.loads\<close>, \<open>record["text"]\<close>,
  \<open>record.get("metadata", {})\<close>, \<open>record.get("id")\<close> and the \<open>Document\<close> built from them.
  \<open>Document\<close> checks its fields: the text is a string, the metadata an object, the
  identifier a string when there is one.
\<close>

definition parse_record :: "(string \<Rightarrow> json option) \<Rightarrow> string \<Rightarrow> error + document" where
  "parse_record loads line =
     (case loads line of
        None \<Rightarrow> Inl JSONDecodeError
      | Some (JObj kvs) \<Rightarrow>
          (case map_of kvs ''text'' of
             None \<Rightarrow> Inl KeyError
           | Some t \<Rightarrow>
               (let md = (case map_of kvs ''metadata'' of None \<Rightarrow> JObj [] | Some m \<Rightarrow> m);
                    ident = (case map_of kvs ''id'' of None \<Rightarrow> JNull | Some i \<Rightarrow> i)
                in case (t, md, ident) of
                     (JStr s, JObj m, JStr i) \<Rightarrow>
                       Inr \<lparr>doc_text = s, doc_metadata = m, doc_id = Some i\<rparr>
                   | (JStr s, JObj m, JNull) \<Rightarrow>
                       Inr \<lparr>doc_text = s, doc_metadata = m, doc_id = None\<rparr>
                   | _ \<Rightarrow> Inl ValidationError))
      | Some _ \<Rightarrow> Inl TypeError)"

text \<open>The loop over the lines of one file, and the loop over the files, both appending to
  the one list \<open>documents\<close>; an exception leaves both loops.\<close>

fun read_lines ::
  "(string \<Rightarrow> json option) \<Rightarrow> string list \<Rightarrow> document list \<Rightarrow> error + document list" where
  "read_lines loads [] documents = Inr documents"
| "read_lines loads (line # rest) documents =
     (if \<not> blank line
      then (case parse_record loads line of
              Inl err \<Rightarrow> Inl err
            | Inr doc \<Rightarrow> read_lines loads rest (documents @ [doc]))
      else read_lines loads rest documents)"

fun read_files ::
  "(string \<Rightarrow> json option) \<Rightarrow> jsonl_file list \<Rightarrow> document list \<Rightarrow> error + document list" where
  "read_files loads [] documents = Inr documents"
| "read_files loads (f # fs) documents =
     (case read_lines loads (snd f) documents of
        Inl err \<Rightarrow> Inl err
      | Inr ds \<Rightarrow> read_files loads fs ds)"

text \<open>\<open>inject_dir.glob("*.jsonl")\<close>: the files whose name ends in \<open>.jsonl\<close>.\<close>

definition glob_jsonl :: "jsonl_file list \<Rightarrow> jsonl_file list" where
  "glob_jsonl files = filter (\<lambda>f. suffix ''.jsonl'' (fst f)) files"

definition load_injected_documents ::
  "env \<Rightarrow> server_state \<Rightarrow> string \<Rightarrow> string \<Rightarrow> error + document list" where
  "load_injected_documents e st project version =
     (case inject_files st (inject_dir project version) of
        None \<Rightarrow> Inr []
      | Some files \<Rightarrow> read_files (json_loads e) (glob_jsonl files) [])"

text \<open>
  The lines of the log of a project and version that the reconstruction parses: the
  non-blank lines of the \<open>.jsonl\<close> files, file after file.
\<close>

definition log_lines :: "server_state \<Rightarrow> string \<Rightarrow> string \<Rightarrow> string list" where
  "log_lines st project version =
     (case inject_files st (inject_dir project version) of
        None \<Rightarrow> []
      | Some files \<Rightarrow> filter (\<lambda>line. \<not> blank line) (concat (map snd (glob_jsonl files))))"

text \<open>
  The reconstruction as the specification words it, for comparison: every line is parsed
  on its own, and a line that does not give a record is left out.
\<close>

definition reconstructDelta_spec ::
  "env \<Rightarrow> server_state \<Rightarrow> string \<Rightarrow> string \<Rightarrow> document list" where
  "reconstructDelta_spec e st project version =
     concat (map (\<lambda>line. case parse_record (json_loads e) line of
                            Inl err \<Rightarrow> [] | Inr doc \<Rightarrow> [doc])
                 (log_lines st project version))"

text \<open>A line is in the log of a directory when one of the files there holds it.\<close>

definition log_has :: "server_state \<Rightarrow> string list \<Rightarrow> string \<Rightarrow> bool" where
  "log_has st dir line =
     (case inject_files st dir of
        None \<Rightarrow> False
      | Some files \<Rightarrow> line \<in> set (concat (map snd files)))"

section \<open>Delta index (lines 133 to 157)\<close>

text \<open>
  Lines 146 and 147: \<open>project, version_slug = slug.split("-", 1)\<close>, which raises
  \<open>ValueError\<close> when the slug has no \<open>-\<close>, and \<open>version_slug.replace("-dot-", ".")\<close>.
\<close>

definition slug_project_version :: "string \<Rightarrow> error + (string \<times> string)" where
  "slug_project_version slug =
     (if CHR ''-'' \<in> set slug
      then Inr (takeWhile (\<lambda>c. c \<noteq> CHR ''-'') slug,
                py_replace ''-dot-'' ''.'' (tl (dropWhile (\<lambda>c. c \<noteq> CHR ''-'') slug)))
      else Inl ValueError)"

definition load_or_create_delta_index ::
  "env \<Rightarrow> server_state \<Rightarrow> string \<Rightarrow> (error + index option) \<times> server_state" where
  "load_or_create_delta_index e st slug =
     (case delta_store st slug of
        Some (Some idx) \<Rightarrow> (Inr (Some idx), st)
      | _ \<Rightarrow>
          (case slug_project_version slug of
             Inl err \<Rightarrow> (Inl err, st)
           | Inr (project, version) \<Rightarrow>
               (case load_injected_documents e st project version of
                  Inl err \<Rightarrow> (Inl err, st)
                | Inr documents \<Rightarrow>
                    if documents \<noteq> []
                    then (Inr (Some documents),
                          st\<lparr>delta_store := (delta_store st)(slug \<mapsto> Some documents)\<rparr>)
                    else (Inr None, st))))"

section \<open>Retrieval with confidence gating (lines 160 to 208)\<close>

text \<open>Lines 167 to 180: the nodes of the base index, then those of the delta index when
  there is one.\<close>

definition all_nodes ::
  "env \<Rightarrow> config \<Rightarrow> index \<Rightarrow> index option \<Rightarrow> string \<Rightarrow> node_with_score list" where
  "all_nodes e cfg base_index delta_index query =
     (let base_nodes = retrieve e base_index (TOP_K cfg) query
      in case delta_index of
           None \<Rightarrow> base_nodes
         | Some d \<Rightarrow> base_nodes @ retrieve e d (TOP_K cfg) query)"

text \<open>
  Modelled from the spec: \<open>SimilarityPostprocessor(similarity_cutoff).postprocess_nodes\<close>
  belongs to the llama-index library and is not among the sources. Section 4.5, step 1:
  drop every candidate whose score is present and below the cutoff; candidates with
  absent scores are retained.
\<close>

definition postprocess_nodes :: "double \<Rightarrow> node_with_score list \<Rightarrow> node_with_score list" where
  "postprocess_nodes similarity_cutoff nodes =
     filter (\<lambda>n. case score n of None \<Rightarrow> True | Some s \<Rightarrow> \<not> dlt s similarity_cutoff) nodes"

text \<open>\<open>[node.score for node in filtered_nodes if node.score is not None]\<close> and
  \<open>sum(scores) / len(scores)\<close>.\<close>

definition defined_scores :: "node_with_score list \<Rightarrow> double list" where
  "defined_scores nodes = concat (map (\<lambda>n. case score n of None \<Rightarrow> [] | Some s \<Rightarrow> [s]) nodes)"

definition mean_score :: "double list \<Rightarrow> double" where
  "mean_score scores = fdiv (py_sum scores) (float_of_nat (length scores))"

definition retrieve_with_confidence ::
  "env \<Rightarrow> config \<Rightarrow> index \<Rightarrow> index option \<Rightarrow> string \<Rightarrow> node_with_score list \<times> bool" where
  "retrieve_with_confidence e cfg base_index delta_index query =
     (let filtered_nodes =
            postprocess_nodes (SIMILARITY_CUTOFF cfg) (all_nodes e cfg base_index delta_index query)
      in if int (length filtered_nodes) < MIN_HITS cfg then (filtered_nodes, False)
         else if filtered_nodes \<noteq> [] then
           (let scores = defined_scores filtered_nodes
            in if scores \<noteq> [] then
                 (if dlt (mean_score scores) (CONFIDENCE_THRESHOLD cfg) then (filtered_nodes, False)
                  else (filtered_nodes, True))
               else (filtered_nodes, True))
         else (filtered_nodes, True))"

section \<open>The answer endpoint (lines 211 to 220 and 303 to 364)\<close>

definition generate_with_gemini ::
  "env \<Rightarrow> config \<Rightarrow> server_state \<Rightarrow> string \<Rightarrow> (error + string) \<times> server_state" where
  "generate_with_gemini e cfg st prompt =
     (generate e (TEMPERATURE cfg) prompt, st\<lparr>gen_calls := gen_calls st @ [prompt]\<rparr>)"

definition dont_know :: string where
  "dont_know = ''I don't know.''"

text \<open>The template of lines 338 to 353, line by line.\<close>

definition answer_prompt :: "string \<Rightarrow> string \<Rightarrow> string" where
  \<open>answer_prompt ctx msg = py_join nl
     [''You are a helpful technical assistant with expertise in Kubernetes and cloud-native technologies.'',
      '''',
      ''Use the provided context as your PRIMARY source of information. When the user asks for examples or configurations:'',
      ''1. Start with what's provided in the context'',
      ''2. Use your knowledge to complete and enhance the example to make it fully functional'',
      ''3. Ensure all parts of your example are consistent (matching labels, IPs, names, etc.)'',
      ''4. Provide complete, working configurations that the user can directly use'',
      '''',
      ''If the context doesn't contain relevant information to answer the question at all, respond with: "I don't know."'',
      '''',
      ''Context:'',
      ctx,
      '''',
      ''Question: '' @ msg,
      '''',
      ''Answer:'']\<close>

definition answer :: "env \<Rightarrow> config \<Rightarrow> server_state \<Rightarrow> request \<Rightarrow> response \<times> server_state" where
  "answer e cfg st data =
     (if \<not> (truthy (req_project data) \<and> truthy (req_version data)
             \<and> truthy (req_thread_slug data) \<and> truthy (req_message data))
      then (ErrorResponse 400 ''Missing required fields'', st)
      else
        let project = str_of (req_project data);
            version = str_of (req_version data);
            thread_slug = str_of (req_thread_slug data);
            msg = str_of (req_message data);
            slug = get_slug project version
        in case indexes st slug of
             None \<Rightarrow> (ErrorResponse 404 (''No index found for '' @ project @ ''/'' @ version), st)
           | Some base_index \<Rightarrow>
               (let delta_index = delta_indexes st slug;
                    (nodes, should_answer) =
                       retrieve_with_confidence e cfg base_index delta_index msg
                in case (if \<not> should_answer then (Inr dont_know, st)
                         else generate_with_gemini e cfg st
                                (answer_prompt
                                   (py_join (nl @ nl) (map (\<lambda>n. doc_text (node n)) nodes)) msg))
                   of
                     (Inl err, st1) \<Rightarrow> (InternalError err, st1)
                   | (Inr response_text, st1) \<Rightarrow>
                       (let thread_messages =
                              load_thread_memory st1 thread_slug
                                @ [(''user'', msg), (''assistant'', response_text)];
                            st2 = save_thread_memory st1 thread_slug thread_messages
                        in (TextResponse response_text,
                            st2\<lparr>threads := (threads st2)(thread_slug \<mapsto> thread_messages)\<rparr>))))"

section \<open>The inject endpoint (lines 418 to 461)\<close>

definition inject :: "env \<Rightarrow> config \<Rightarrow> server_state \<Rightarrow> request \<Rightarrow> response \<times> server_state" where
  "inject e cfg st data =
     (if \<not> (truthy (req_project data) \<and> truthy (req_version data)
             \<and> truthy (req_textContent data))
      then (ErrorResponse 400 ''Missing required fields'', st)
      else
        let project = str_of (req_project data);
            version = str_of (req_version data);
            text_content = str_of (req_textContent data);
            md = (case req_metadata data of None \<Rightarrow> [] | Some m \<Rightarrow> m);
            slug = get_slug project version
        in case append_to_jsonl e st project version text_content md of
             (Inl err, st1) \<Rightarrow> (InternalError err, st1)
           | (Inr u, st1) \<Rightarrow>
               (let doc = \<lparr>doc_text = text_content, doc_metadata = md,
                           doc_id = Some (uuid4 e (uuid_count st1))\<rparr>;
                    st2 = st1\<lparr>uuid_count := uuid_count st1 + 1\<rparr>;
                    delta_index = (case delta_indexes st2 slug of
                                     Some idx \<Rightarrow> idx @ [doc]
                                   | None \<Rightarrow> [doc]);
                    st3 = st2\<lparr>delta_indexes := (delta_indexes st2)(slug \<mapsto> delta_index)\<rparr>
                in (StatusOk,
                    st3\<lparr>delta_store := (delta_store st3)(slug \<mapsto> Some delta_index)\<rparr>)))"

section \<open>Concrete collaborators and states for evaluation\<close>

text \<open>
  A serialiser that agrees with \<open>json.dumps\<close> on objects whose values are plain strings
  (printable ASCII, no quote and no backslash) or the empty object; three lines of a log
  file, two with a record and one that is not JSON; and a parser that agrees with
  \<open>json.loads\<close> on these lines.
\<close>

definition sample_dumps :: "json \<Rightarrow> string" where
  \<open>sample_dumps j =
     (case j of
        JObj kvs \<Rightarrow>
          ''{'' @ py_join '', ''
                    (map (\<lambda>(k, v). ''"'' @ k @ ''": '' @
                            (case v of JStr s \<Rightarrow> ''"'' @ s @ ''"'' | JObj [] \<Rightarrow> ''{}'' | _ \<Rightarrow> ''null''))
                         kvs) @ ''}''
      | JStr s \<Rightarrow> ''"'' @ s @ ''"''
      | _ \<Rightarrow> ''null'')\<close>

definition line_A :: string where
  \<open>line_A = ''{"text": "A"}'' @ nl\<close>

definition line_B :: string where
  \<open>line_B = ''{"text": "B"}'' @ nl\<close>

definition line_bad :: string where
  "line_bad = ''not json'' @ nl"

definition sample_loads :: "string \<Rightarrow> json option" where
  "sample_loads line =
     (if line = line_A then Some (JObj [(''text'', JStr ''A'')])
      else if line = line_B then Some (JObj [(''text'', JStr ''B'')])
      else None)"

definition sample_uuid :: "nat \<Rightarrow> string" where
  "sample_uuid n = ''uuid-'' @ replicate (Suc n) (CHR ''x'')"

definition sample_retrieve :: "index \<Rightarrow> int \<Rightarrow> string \<Rightarrow> node_with_score list" where
  "sample_retrieve idx k query = take (nat k) (map (\<lambda>d. \<lparr>node = d, score = Some d09\<rparr>) idx)"

definition sample_env :: "bool \<Rightarrow> env" where
  "sample_env writable =
     \<lparr>retrieve = sample_retrieve,
      generate = (\<lambda>t p. Inr ''generated''),
      json_loads = sample_loads,
      json_dumps = sample_dumps,
      uuid4 = sample_uuid,
      now_date = ''2026-01-01'',
      now_iso = ''2026-01-01T00:00:00'',
      log_writable = writable\<rparr>"

definition default_config :: config where
  "default_config =
     \<lparr>MIN_HITS = 1, SIMILARITY_CUTOFF = d05, CONFIDENCE_THRESHOLD = d01,
      TOP_K = 5, TEMPERATURE = Finite 0 0\<rparr>"

definition empty_state :: server_state where
  "empty_state =
     \<lparr>indexes = Map.empty, delta_indexes = Map.empty, threads = Map.empty,
      thread_files = Map.empty, inject_files = Map.empty, delta_store = Map.empty,
      gen_calls = [], uuid_count = 0\<rparr>"

definition doc_of :: "string \<Rightarrow> document" where
  "doc_of s = \<lparr>doc_text = s, doc_metadata = [], doc_id = None\<rparr>"

text \<open>The injection of the specification's scenario, and a state with a log for it: three
  lines, the second one given.\<close>

definition inject_request :: request where
  "inject_request =
     \<lparr>req_project = Some ''k8s'', req_version = Some ''1.2'',
      req_thread_slug = None, req_message = None,
      req_textContent = Some ''X'', req_metadata = None\<rparr>"

definition log_state :: "string \<Rightarrow> server_state" where
  "log_state second =
     empty_state\<lparr>inject_files :=
       [[''k8s'', ''1-dot-2''] \<mapsto> [(''2026-01-01.jsonl'', [line_A, second, line_B])]]\<rparr>"





text \<open>The request of the repository's test \<open>test_answer_unknown_project\<close>.\<close>

definition unknown_request :: request where
  "unknown_request =
     \<lparr>req_project = Some ''unknown'', req_version = Some ''1.0'',
      req_thread_slug = Some ''test-thread'', req_message = Some ''test'',
      req_textContent = None, req_metadata = None\<rparr>"

section \<open>Facts about floats\<close>





lemma dlt_d09_d05: "\<not> dlt d09 d05"
  by (simp add: d09_def d05_def scale_def)




section \<open>Facts about the slug\<close>

lemma py_replace_Nil: "old \<noteq> [] \<Longrightarrow> py_replace old new [] = []"
  by (simp add: py_replace.simps)

lemma py_replace_hit:
  "old \<noteq> [] \<Longrightarrow> py_replace old new (old @ s) = new @ py_replace old new s"
  by (subst py_replace.simps) simp

lemma py_replace_miss:
  "old \<noteq> [] \<Longrightarrow> \<not> prefix old (c # s) \<Longrightarrow>
   py_replace old new (c # s) = c # py_replace old new s"
  by (subst py_replace.simps) simp

lemma dot_to_marker_dot: "dot_to_marker (CHR ''.'') = ''-dot-''"
  by (simp add: dot_to_marker_def)

lemma dot_to_marker_other: "c \<noteq> CHR ''.'' \<Longrightarrow> dot_to_marker c = [c]"
  by (simp add: dot_to_marker_def)

lemma normalize_version_concat: "normalize_version v = concat (map dot_to_marker v)"
proof (induction v)
  case Nil
  show ?case by (simp add: normalize_version_def py_replace_Nil)
next
  case (Cons c cs)
  show ?case
  proof (cases "c = CHR ''.''")
    case True
    have "py_replace ''.'' ''-dot-'' (''.'' @ cs) = ''-dot-'' @ py_replace ''.'' ''-dot-'' cs"
      by (rule py_replace_hit) simp
    with True Cons show ?thesis
      by (simp add: normalize_version_def dot_to_marker_dot)
  next
    case False
    then have "\<not> prefix ''.'' (c # cs)" by simp
    then have "py_replace ''.'' ''-dot-'' (c # cs) = c # py_replace ''.'' ''-dot-'' cs"
      by (intro py_replace_miss) simp_all
    with False Cons show ?thesis
      by (simp add: normalize_version_def dot_to_marker_other)
  qed
qed

lemma no_dot_in_normalized: "CHR ''.'' \<notin> set (concat (map dot_to_marker v))"
  by (induction v) (auto simp: dot_to_marker_def)

text \<open>Where the marker can begin in a normalised version.\<close>

lemma norm_prefix_step:
  assumes "prefix (x # xs) (concat (map dot_to_marker cs))" and "x \<noteq> CHR ''-''"
  shows "\<exists>as. cs = x # as \<and> prefix xs (concat (map dot_to_marker as))"
proof (cases cs)
  case Nil
  with assms show ?thesis by simp
next
  case (Cons a as)
  show ?thesis
  proof (cases "a = CHR ''.''")
    case True
    with assms Cons show ?thesis by (simp add: dot_to_marker_dot)
  next
    case False
    with assms Cons show ?thesis by (simp add: dot_to_marker_other)
  qed
qed

lemma norm_prefix_dash:
  assumes "prefix ''-'' (concat (map dot_to_marker cs))"
  shows "\<exists>as. cs = CHR ''-'' # as \<or> cs = CHR ''.'' # as"
proof (cases cs)
  case Nil
  with assms show ?thesis by simp
next
  case (Cons a as)
  show ?thesis
  proof (cases "a = CHR ''.''")
    case True
    with Cons show ?thesis by simp
  next
    case False
    with assms Cons show ?thesis by (simp add: dot_to_marker_other)
  qed
qed

lemma marker_prefix_norm:
  assumes "prefix ''dot-'' (concat (map dot_to_marker cs))"
  shows "prefix ''dot-'' cs \<or> prefix ''dot.'' cs"
proof -
  from norm_prefix_step [OF assms] obtain r1 where
    r1: "cs = CHR ''d'' # r1" "prefix ''ot-'' (concat (map dot_to_marker r1))" by auto
  from norm_prefix_step [OF r1(2)] obtain r2 where
    r2: "r1 = CHR ''o'' # r2" "prefix ''t-'' (concat (map dot_to_marker r2))" by auto
  from norm_prefix_step [OF r2(2)] obtain r3 where
    r3: "r2 = CHR ''t'' # r3" "prefix ''-'' (concat (map dot_to_marker r3))" by auto
  from norm_prefix_dash [OF r3(2)] obtain r4 where
    "r3 = CHR ''-'' # r4 \<or> r3 = CHR ''.'' # r4" by auto
  with r1(1) r2(1) r3(1) show ?thesis by auto
qed

text \<open>Reversing the substitution gives the version back when no marker can be read
  where there was no dot.\<close>

lemma unmark_norm:
  "\<not> contains ''-dot-'' v \<Longrightarrow> \<not> contains ''-dot.'' v \<Longrightarrow>
   py_replace ''-dot-'' ''.'' (concat (map dot_to_marker v)) = v"
proof (induction v)
  case Nil
  show ?case by (simp add: py_replace_Nil)
next
  case (Cons c cs)
  from Cons.prems have rest: "\<not> contains ''-dot-'' cs" "\<not> contains ''-dot.'' cs"
    and here: "\<not> prefix ''-dot-'' (c # cs)" "\<not> prefix ''-dot.'' (c # cs)"
    by simp_all
  from Cons.IH rest have IH: "py_replace ''-dot-'' ''.'' (concat (map dot_to_marker cs)) = cs"
    by simp
  show ?case
  proof (cases "c = CHR ''.''")
    case True
    have "py_replace ''-dot-'' ''.'' (''-dot-'' @ concat (map dot_to_marker cs))
          = ''.'' @ py_replace ''-dot-'' ''.'' (concat (map dot_to_marker cs))"
      by (rule py_replace_hit) simp
    with True IH show ?thesis by (simp add: dot_to_marker_dot)
  next
    case False
    have np: "\<not> prefix ''-dot-'' (c # concat (map dot_to_marker cs))"
    proof
      assume p: "prefix ''-dot-'' (c # concat (map dot_to_marker cs))"
      then have dash: "c = CHR ''-''" and "prefix ''dot-'' (concat (map dot_to_marker cs))"
        by auto
      then have "prefix ''dot-'' cs \<or> prefix ''dot.'' cs" by (intro marker_prefix_norm)
      with dash here show False by simp
    qed
    have "py_replace ''-dot-'' ''.'' (c # concat (map dot_to_marker cs))
          = c # py_replace ''-dot-'' ''.'' (concat (map dot_to_marker cs))"
      using np by (intro py_replace_miss) simp_all
    with False IH show ?thesis by (simp add: dot_to_marker_other)
  qed
qed

text \<open>Normalising what the reversal returns gives the normalised version again.\<close>

lemma norm_unmark:
  "CHR ''.'' \<notin> set s \<Longrightarrow> concat (map dot_to_marker (py_replace ''-dot-'' ''.'' s)) = s"
proof (induction s rule: length_induct)
  case (1 s)
  show ?case
  proof (cases "prefix ''-dot-'' s")
    case True
    then obtain r where s: "s = ''-dot-'' @ r" by (auto simp: prefix_def)
    with 1 have "concat (map dot_to_marker (py_replace ''-dot-'' ''.'' r)) = r" by simp
    moreover have "py_replace ''-dot-'' ''.'' (''-dot-'' @ r) = ''.'' @ py_replace ''-dot-'' ''.'' r"
      by (rule py_replace_hit) simp
    ultimately show ?thesis using s by (simp add: dot_to_marker_dot)
  next
    case False
    show ?thesis
    proof (cases s)
      case Nil
      then show ?thesis by (simp add: py_replace_Nil)
    next
      case (Cons c r)
      with 1 have r: "concat (map dot_to_marker (py_replace ''-dot-'' ''.'' r)) = r"
        and c: "c \<noteq> CHR ''.''" by auto
      have "py_replace ''-dot-'' ''.'' (c # r) = c # py_replace ''-dot-'' ''.'' r"
        using False Cons by (intro py_replace_miss) simp_all
      with r c Cons show ?thesis by (simp add: dot_to_marker_other)
    qed
  qed
qed

lemma inject_dir_unmark:
  "inject_dir p (py_replace ''-dot-'' ''.'' (normalize_version v)) = inject_dir p v"
  using norm_unmark [OF no_dot_in_normalized, of v]
  by (simp add: inject_dir_def normalize_version_concat)

lemma split_slug:
  assumes "CHR ''-'' \<notin> set p"
  shows "slug_project_version (p @ CHR ''-'' # s) = Inr (p, py_replace ''-dot-'' ''.'' s)"
proof -
  have "takeWhile (\<lambda>c. c \<noteq> CHR ''-'') (p @ CHR ''-'' # s) = p"
    using assms by (subst takeWhile_append2) auto
  moreover have "dropWhile (\<lambda>c. c \<noteq> CHR ''-'') (p @ CHR ''-'' # s) = CHR ''-'' # s"
    using assms by (subst dropWhile_append2) auto
  ultimately show ?thesis by (simp add: slug_project_version_def)
qed

lemma get_slug_k8s: "get_slug ''k8s'' ''1.2'' = ''k8s-1-dot-2''"
  by (simp add: get_slug_def normalize_version_concat dot_to_marker_def)

section \<open>Claims about the slug\<close>

text \<open>
  C7, as amended. For every project \<open>p\<close>, \<open>get_slug p ""\<close> is \<open>p\<close>. For every non-empty
  version \<open>v\<close>, the slug is \<open>p\<close>, the separator \<open>-\<close>, and \<open>v\<close> with every dot replaced by
  \<open>-dot-\<close>. When \<open>v\<close> contains neither \<open>-dot-\<close> nor \<open>-dot.\<close>, replacing \<open>-dot-\<close> by a dot in
  the part of the slug after the separator gives \<open>v\<close> back.
\<close>

theorem get_slug_roundtrip:
  "get_slug p [] = p \<and>
   (v \<noteq> [] \<longrightarrow> get_slug p v = p @ ''-'' @ concat (map dot_to_marker v)) \<and>
   (v \<noteq> [] \<and> \<not> contains ''-dot-'' v \<and> \<not> contains ''-dot.'' v \<longrightarrow>
      py_replace ''-dot-'' ''.'' (drop (length p + 1) (get_slug p v)) = v)"
  by (simp add: get_slug_def normalize_version_concat unmark_norm)

theorem get_slug_roundtrip_witness:
  "get_slug ''k8s'' [] = ''k8s'' \<and>
   get_slug ''k8s'' ''1.2'' = ''k8s'' @ ''-'' @ concat (map dot_to_marker ''1.2'') \<and>
   py_replace ''-dot-'' ''.'' (drop (length ''k8s'' + 1) (get_slug ''k8s'' ''1.2'')) = ''1.2''"
proof -
  have "''1.2'' \<noteq> [] \<and> \<not> contains ''-dot-'' ''1.2'' \<and> \<not> contains ''-dot.'' ''1.2''"
    by simp
  with get_slug_roundtrip [of "''k8s''" "''1.2''"] show ?thesis by blast
qed

text \<open>
  C7 as stated fails: the version \<open>-dot.\<close> does not contain the marker \<open>-dot-\<close>, and
  reversing the substitution in its slug gives \<open>.dot-\<close>; and the empty version does not
  contain the marker either, while its slug has no separator.
\<close>

theorem get_slug_roundtrip_counterexample:
  "\<not> contains ''-dot-'' ''-dot.'' \<and>
   py_replace ''-dot-'' ''.'' (drop (length ''p'' + 1) (get_slug ''p'' ''-dot.'')) = ''.dot-'' \<and>
   ''.dot-'' \<noteq> ''-dot.'' \<and>
   \<not> contains ''-dot-'' [] \<and>
   get_slug ''p'' [] \<noteq> ''p'' @ ''-'' @ concat (map dot_to_marker [])"
  by (simp add: get_slug_def normalize_version_concat dot_to_marker_def py_replace.simps)

text \<open>
  C10, as amended. For every project \<open>p\<close> without \<open>-\<close> and every non-empty version \<open>v\<close>,
  splitting the slug at its first \<open>-\<close> and reversing the substitution gives the project
  \<open>p\<close> and a version whose injection-log directory is that of \<open>v\<close>; the version is \<open>v\<close>
  itself when \<open>v\<close> contains neither \<open>-dot-\<close> nor \<open>-dot.\<close>. For some project with a \<open>-\<close>,
  the pair obtained is another one and so is its log directory.
\<close>

theorem slug_project_version_inverse:
  "(CHR ''-'' \<notin> set p \<and> v \<noteq> [] \<longrightarrow>
      slug_project_version (get_slug p v)
        = Inr (p, py_replace ''-dot-'' ''.'' (normalize_version v)) \<and>
      inject_dir p (py_replace ''-dot-'' ''.'' (normalize_version v)) = inject_dir p v \<and>
      (\<not> contains ''-dot-'' v \<and> \<not> contains ''-dot.'' v \<longrightarrow>
         slug_project_version (get_slug p v) = Inr (p, v))) \<and>
   (\<exists>q w q' w'. CHR ''-'' \<in> set q \<and> w \<noteq> [] \<and>
      slug_project_version (get_slug q w) = Inr (q', w') \<and>
      (q', w') \<noteq> (q, w) \<and> inject_dir q' w' \<noteq> inject_dir q w)"
proof (intro conjI impI)
  assume a: "CHR ''-'' \<notin> set p \<and> v \<noteq> []"
  then show split: "slug_project_version (get_slug p v)
        = Inr (p, py_replace ''-dot-'' ''.'' (normalize_version v))"
    by (simp add: get_slug_def split_slug)
  show "inject_dir p (py_replace ''-dot-'' ''.'' (normalize_version v)) = inject_dir p v"
    by (rule inject_dir_unmark)
  assume "\<not> contains ''-dot-'' v \<and> \<not> contains ''-dot.'' v"
  then have "py_replace ''-dot-'' ''.'' (normalize_version v) = v"
    by (simp add: normalize_version_concat unmark_norm)
  with split show "slug_project_version (get_slug p v) = Inr (p, v)" by simp
next
  have "slug_project_version (get_slug ''my-proj'' ''1.0'') = Inr (''my'', ''proj-1.0'')"
    by (simp add: slug_project_version_def get_slug_def normalize_version_concat
        dot_to_marker_def py_replace.simps)
  moreover have "inject_dir ''my'' ''proj-1.0'' \<noteq> inject_dir ''my-proj'' ''1.0''"
    by (simp add: inject_dir_def)
  ultimately show "\<exists>q w q' w'. CHR ''-'' \<in> set q \<and> w \<noteq> [] \<and>
      slug_project_version (get_slug q w) = Inr (q', w') \<and>
      (q', w') \<noteq> (q, w) \<and> inject_dir q' w' \<noteq> inject_dir q w"
    by (intro exI [of _ "''my-proj''"] exI [of _ "''1.0''"] exI [of _ "''my''"]
        exI [of _ "''proj-1.0''"]) simp
qed

theorem slug_project_version_inverse_witness:
  "slug_project_version (get_slug ''k8s'' ''1.2'') = Inr (''k8s'', ''1.2'') \<and>
   inject_dir ''k8s'' (py_replace ''-dot-'' ''.'' (normalize_version ''1.2''))
     = inject_dir ''k8s'' ''1.2''"
proof -
  have "CHR ''-'' \<notin> set ''k8s'' \<and> ''1.2'' \<noteq> [] \<and>
        \<not> contains ''-dot-'' ''1.2'' \<and> \<not> contains ''-dot.'' ''1.2''"
    by simp
  with slug_project_version_inverse [of "''k8s''" "''1.2''"] show ?thesis by blast
qed

text \<open>
  C10 as stated fails: the project \<open>k8s\<close> has no \<open>-\<close>, and the version \<open>1-dot-2\<close> comes back
  as \<open>1.2\<close>; with the empty version the slug has no \<open>-\<close> and the split raises.
\<close>

theorem slug_project_version_inverse_counterexample:
  "CHR ''-'' \<notin> set ''k8s'' \<and>
   slug_project_version (get_slug ''k8s'' ''1-dot-2'') = Inr (''k8s'', ''1.2'') \<and>
   (''k8s'', ''1.2'') \<noteq> (''k8s'', ''1-dot-2'') \<and>
   slug_project_version (get_slug ''k8s'' []) = Inl ValueError"
  by (simp add: slug_project_version_def get_slug_def normalize_version_concat
      dot_to_marker_def py_replace.simps)

section \<open>Claims about retrieval and the confidence gate\<close>


lemma sample_retrieve_one:
  "sample_retrieve [d] 5 query = [\<lparr>node = d, score = Some d09\<rparr>]"
  by (simp add: sample_retrieve_def)

text \<open>
  C1. When fewer candidates than \<open>MIN_HITS\<close> are left after the similarity cutoff, the
  function returns the filtered candidates and \<open>False\<close>, whatever their scores are. The
  premise can only hold for a positive \<open>MIN_HITS\<close>, a length being at least zero.
\<close>

theorem retrieve_with_confidence_min_hits:
  assumes "int (length (postprocess_nodes (SIMILARITY_CUTOFF cfg)
                          (all_nodes e cfg base_index delta_index query))) < MIN_HITS cfg"
  shows "retrieve_with_confidence e cfg base_index delta_index query
         = (postprocess_nodes (SIMILARITY_CUTOFF cfg)
              (all_nodes e cfg base_index delta_index query), False)"
  using assms by (simp add: retrieve_with_confidence_def Let_def)

theorem retrieve_with_confidence_min_hits_witness:
  "retrieve_with_confidence (sample_env True) (default_config\<lparr>MIN_HITS := 2\<rparr>)
     [doc_of ''A''] None ''q''
   = ([\<lparr>node = doc_of ''A'', score = Some d09\<rparr>], False)"
proof -
  let ?cfg = "default_config\<lparr>MIN_HITS := 2\<rparr>"
  have filtered: "postprocess_nodes (SIMILARITY_CUTOFF ?cfg)
                    (all_nodes (sample_env True) ?cfg [doc_of ''A''] None ''q'')
                  = [\<lparr>node = doc_of ''A'', score = Some d09\<rparr>]"
    by (simp add: all_nodes_def sample_env_def default_config_def sample_retrieve_one
        postprocess_nodes_def dlt_d09_d05)
  have few: "int (length (postprocess_nodes (SIMILARITY_CUTOFF ?cfg)
               (all_nodes (sample_env True) ?cfg [doc_of ''A''] None ''q''))) < MIN_HITS ?cfg"
    unfolding filtered by (simp add: default_config_def)
  from retrieve_with_confidence_min_hits [OF few] show ?thesis
    unfolding filtered .
qed




text \<open>
  C4. The merged list is the result of the base index followed by the result of the
  delta index when there is one: nothing is reordered and nothing removed, so a
  candidate occurs in the merged list as often as in the two results together (twice
  at least when both return it), and when a retriever returns at most \<open>TOP_K\<close> nodes
  the merged list has at most twice \<open>TOP_K\<close>.
\<close>

theorem all_nodes_concatenation:
  "all_nodes e cfg base_index None query = retrieve e base_index (TOP_K cfg) query \<and>
   all_nodes e cfg base_index (Some d) query
     = retrieve e base_index (TOP_K cfg) query @ retrieve e d (TOP_K cfg) query \<and>
   count_list (all_nodes e cfg base_index (Some d) query) n
     = count_list (retrieve e base_index (TOP_K cfg) query) n
       + count_list (retrieve e d (TOP_K cfg) query) n \<and>
   (n \<in> set (retrieve e base_index (TOP_K cfg) query) \<and>
    n \<in> set (retrieve e d (TOP_K cfg) query) \<longrightarrow>
      2 \<le> count_list (all_nodes e cfg base_index (Some d) query) n) \<and>
   ((\<forall>idx. int (length (retrieve e idx (TOP_K cfg) query)) \<le> TOP_K cfg) \<longrightarrow>
      0 \<le> int (length (all_nodes e cfg base_index delta_index query)) \<and>
      int (length (all_nodes e cfg base_index delta_index query)) \<le> 2 * TOP_K cfg)"
proof -
  let ?b = "retrieve e base_index (TOP_K cfg) query"
  have none: "all_nodes e cfg base_index None query = ?b"
    by (simp add: all_nodes_def)
  have cat: "all_nodes e cfg base_index (Some d) query = ?b @ retrieve e d (TOP_K cfg) query"
    by (simp add: all_nodes_def)
  have cnt: "count_list (all_nodes e cfg base_index (Some d) query) n
     = count_list ?b n + count_list (retrieve e d (TOP_K cfg) query) n"
    by (simp add: cat)
  have twice: "2 \<le> count_list (all_nodes e cfg base_index (Some d) query) n"
    if "n \<in> set ?b \<and> n \<in> set (retrieve e d (TOP_K cfg) query)"
  proof -
    from that have "count_list ?b n \<noteq> 0"
      and "count_list (retrieve e d (TOP_K cfg) query) n \<noteq> 0"
      by (simp_all add: count_list_0_iff)
    then show ?thesis unfolding cnt by arith
  qed
  have bound: "int (length (all_nodes e cfg base_index delta_index query)) \<le> 2 * TOP_K cfg"
    if b: "\<forall>idx. int (length (retrieve e idx (TOP_K cfg) query)) \<le> TOP_K cfg"
  proof (cases delta_index)
    case None
    from b have "int (length ?b) \<le> TOP_K cfg" by simp
    moreover have "0 \<le> int (length ?b)" by simp
    ultimately show ?thesis using None by (simp add: all_nodes_def)
  next
    case (Some d')
    from b have "int (length ?b) \<le> TOP_K cfg"
      and "int (length (retrieve e d' (TOP_K cfg) query)) \<le> TOP_K cfg" by simp_all
    with Some show ?thesis by (simp add: all_nodes_def)
  qed
  from none cat cnt twice bound show ?thesis by simp
qed

theorem all_nodes_concatenation_witness:
  "all_nodes (sample_env True) default_config [doc_of ''A''] (Some [doc_of ''A'']) ''q''
     = [\<lparr>node = doc_of ''A'', score = Some d09\<rparr>,
        \<lparr>node = doc_of ''A'', score = Some d09\<rparr>] \<and>
   2 \<le> count_list
          (all_nodes (sample_env True) default_config [doc_of ''A''] (Some [doc_of ''A'']) ''q'')
          \<lparr>node = doc_of ''A'', score = Some d09\<rparr> \<and>
   int (length (all_nodes (sample_env True) default_config [doc_of ''A'']
                  (Some [doc_of ''A'']) ''q'')) \<le> 2 * TOP_K default_config"
proof -
  have k: "TOP_K default_config = 5"
    by (simp add: default_config_def)
  have r: "retrieve (sample_env True) [doc_of ''A''] 5 ''q''
           = [\<lparr>node = doc_of ''A'', score = Some d09\<rparr>]"
    by (simp add: sample_env_def sample_retrieve_one)
  have b: "\<forall>idx. int (length (retrieve (sample_env True) idx (TOP_K default_config) ''q''))
                 \<le> TOP_K default_config"
    by (simp add: k sample_env_def sample_retrieve_def)
  from all_nodes_concatenation [of "sample_env True" default_config "[doc_of ''A'']" "''q''"
      "[doc_of ''A'']" "\<lparr>node = doc_of ''A'', score = Some d09\<rparr>" "Some [doc_of ''A'']"] b
  show ?thesis by (simp add: k r)
qed

section \<open>Claims about the answer endpoint\<close>

lemma get_slug_unknown: "get_slug ''unknown'' ''1.0'' = ''unknown-1-dot-0''"
  by (simp add: get_slug_def normalize_version_concat dot_to_marker_def)

text \<open>
  C3. When the confidence gate says not to answer, the response text is exactly
  \<open>I don't know.\<close> and the list of prompts sent to the generation service is the one
  before the request: no call is made.
\<close>

theorem answer_abstains_without_generation:
  assumes "truthy (req_project data)" and "truthy (req_version data)"
    and "truthy (req_thread_slug data)" and "truthy (req_message data)"
    and "indexes st (get_slug (str_of (req_project data)) (str_of (req_version data)))
         = Some base_index"
    and "snd (retrieve_with_confidence e cfg base_index
                (delta_indexes st (get_slug (str_of (req_project data))
                                            (str_of (req_version data))))
                (str_of (req_message data))) = False"
  shows "fst (answer e cfg st data) = TextResponse ''I don't know.'' \<and>
         gen_calls (snd (answer e cfg st data)) = gen_calls st"
proof -
  obtain nodes where
    "retrieve_with_confidence e cfg base_index
       (delta_indexes st (get_slug (str_of (req_project data)) (str_of (req_version data))))
       (str_of (req_message data)) = (nodes, False)"
    using assms(6) by (metis prod.collapse)
  with assms(1-5) show ?thesis
    by (simp add: answer_def Let_def dont_know_def save_thread_memory_def)
qed

theorem answer_abstains_without_generation_witness:
  "fst (answer (sample_env True) default_config
          (empty_state\<lparr>indexes := [''unknown-1-dot-0'' \<mapsto> []]\<rparr>) unknown_request)
     = TextResponse ''I don't know.'' \<and>
   gen_calls (snd (answer (sample_env True) default_config
          (empty_state\<lparr>indexes := [''unknown-1-dot-0'' \<mapsto> []]\<rparr>) unknown_request))
     = gen_calls (empty_state\<lparr>indexes := [''unknown-1-dot-0'' \<mapsto> []]\<rparr>)"
proof -
  let ?st = "empty_state\<lparr>indexes := [''unknown-1-dot-0'' \<mapsto> []]\<rparr>"
  have f: "truthy (req_project unknown_request)" "truthy (req_version unknown_request)"
    "truthy (req_thread_slug unknown_request)" "truthy (req_message unknown_request)"
    by (simp_all add: unknown_request_def truthy_def)
  have slug: "get_slug (str_of (req_project unknown_request))
                (str_of (req_version unknown_request)) = ''unknown-1-dot-0''"
    by (simp add: unknown_request_def str_of_def get_slug_unknown)
  have base: "indexes ?st (get_slug (str_of (req_project unknown_request))
                (str_of (req_version unknown_request))) = Some []"
    unfolding slug by (simp add: empty_state_def)
  have gate: "snd (retrieve_with_confidence (sample_env True) default_config []
                (delta_indexes ?st (get_slug (str_of (req_project unknown_request))
                                             (str_of (req_version unknown_request))))
                (str_of (req_message unknown_request))) = False"
    unfolding slug
    by (simp add: retrieve_with_confidence_def all_nodes_def postprocess_nodes_def
        sample_env_def sample_retrieve_def default_config_def empty_state_def Let_def)
  from answer_abstains_without_generation [OF f base gate] show ?thesis .
qed

text \<open>
  C8. When all four fields are present and the registry has no base index for the slug,
  the response is the 404 error and the state returned is the state given: registries,
  thread files and thread cache are all as before.
\<close>

theorem answer_not_found:
  assumes "truthy (req_project data)" and "truthy (req_version data)"
    and "truthy (req_thread_slug data)" and "truthy (req_message data)"
    and "indexes st (get_slug (str_of (req_project data)) (str_of (req_version data))) = None"
  shows "answer e cfg st data
         = (ErrorResponse 404 (''No index found for '' @ str_of (req_project data)
                                 @ ''/'' @ str_of (req_version data)), st) \<and>
         thread_files (snd (answer e cfg st data)) = thread_files st \<and>
         threads (snd (answer e cfg st data)) = threads st"
  using assms by (simp add: answer_def Let_def)

theorem answer_not_found_witness:
  "answer (sample_env True) default_config empty_state unknown_request
   = (ErrorResponse 404 ''No index found for unknown/1.0'', empty_state)"
proof -
  have f: "truthy (req_project unknown_request)" "truthy (req_version unknown_request)"
    "truthy (req_thread_slug unknown_request)" "truthy (req_message unknown_request)"
    by (simp_all add: unknown_request_def truthy_def)
  have none: "indexes empty_state (get_slug (str_of (req_project unknown_request))
                (str_of (req_version unknown_request))) = None"
    by (simp add: empty_state_def)
  from answer_not_found [OF f none, of "sample_env True" default_config] show ?thesis
    by (simp add: unknown_request_def str_of_def)
qed

section \<open>Claims about the injection log\<close>

lemma inject_dir_k8s: "inject_dir ''k8s'' ''1.2'' = [''k8s'', ''1-dot-2'']"
  by (simp add: inject_dir_def normalize_version_concat dot_to_marker_def)

lemma log_lines_log_state:
  "log_lines (log_state second) ''k8s'' ''1.2''
   = filter (\<lambda>line. \<not> blank line) [line_A, second, line_B]"
  by (simp add: log_lines_def log_state_def empty_state_def inject_dir_k8s glob_jsonl_def
      suffix_to_prefix)

lemma blank_samples:
  "\<not> blank line_A" "\<not> blank line_B" "\<not> blank line_bad" "blank nl"
  by (simp_all add: blank_def py_isspace_def nl_def line_A_def line_B_def line_bad_def
      followers_def)

lemma parse_samples:
  "parse_record sample_loads line_A = Inr (doc_of ''A'')"
  "parse_record sample_loads line_B = Inr (doc_of ''B'')"
  "parse_record sample_loads line_bad = Inl JSONDecodeError"
  by (simp_all add: parse_record_def sample_loads_def doc_of_def nl_def
      line_A_def line_B_def line_bad_def)

lemma load_log_state:
  "load_injected_documents (sample_env True) (log_state second) ''k8s'' ''1.2''
   = read_lines sample_loads [line_A, second, line_B] []"
  by (simp add: load_injected_documents_def log_state_def empty_state_def inject_dir_k8s
      glob_jsonl_def suffix_to_prefix sample_env_def split: sum.splits)

text \<open>
  C5. The log of the project \<open>k8s\<close>, version \<open>1.2\<close>, holds three lines: a record, a line
  that is not JSON, and a second record. The reconstruction as the specification words
  it skips the second line and gives the chunks of the two records. The code raises
  \<open>JSONDecodeError\<close> at the second line and gives no chunk at all: the chunk of the first
  line, already built, is lost with the list, and the third line is never read.
\<close>

theorem load_injected_documents_raises_on_bad_line:
  "reconstructDelta_spec (sample_env True) (log_state line_bad) ''k8s'' ''1.2''
     = [doc_of ''A'', doc_of ''B''] \<and>
   load_injected_documents (sample_env True) (log_state line_bad) ''k8s'' ''1.2''
     = Inl JSONDecodeError"
proof -
  have loads: "json_loads (sample_env True) = sample_loads"
    by (simp add: sample_env_def)
  have "reconstructDelta_spec (sample_env True) (log_state line_bad) ''k8s'' ''1.2''
        = [doc_of ''A'', doc_of ''B'']"
    by (simp add: reconstructDelta_spec_def loads log_lines_log_state blank_samples
        parse_samples)
  moreover have
    "load_injected_documents (sample_env True) (log_state line_bad) ''k8s'' ''1.2''
     = Inl JSONDecodeError"
    by (simp add: load_log_state blank_samples parse_samples)
  ultimately show ?thesis by simp
qed

section \<open>Claims about the inject endpoint\<close>

lemma append_line_has: "\<exists>f \<in> set (append_line name line files). line \<in> set (snd f)"
proof (induction files)
  case Nil
  show ?case by simp
next
  case (Cons f fs)
  obtain n ls where f: "f = (n, ls)" by (cases f)
  show ?case
  proof (cases "n = name")
    case True
    with f show ?thesis by simp
  next
    case False
    with f Cons show ?thesis by simp
  qed
qed

lemma inject_request_fields:
  "req_project inject_request = Some ''k8s''" "req_version inject_request = Some ''1.2''"
  "req_textContent inject_request = Some ''X''"
  "[] = (case req_metadata inject_request of None \<Rightarrow> [] | Some m \<Rightarrow> m)"
  by (simp_all add: inject_request_def)

text \<open>
  C6. \<open>inject\<close> first runs \<open>append_to_jsonl\<close>, which leaves the delta registry and the
  persisted delta indexes as they were. When the write succeeds, the record's line is in
  the log of the state that \<open>append_to_jsonl\<close> returns, the response is a success, and the
  rest of \<open>inject\<close> does not touch the log. When the write fails, the request fails with
  the write error, the log holds the lines it held, and the delta registry and the
  persisted delta indexes are unchanged. So whenever one of these two differs after the
  request, the record's line is in the log.
\<close>

theorem inject_write_then_index:
  assumes "req_project data = Some project" and "project \<noteq> []"
    and "req_version data = Some version" and "version \<noteq> []"
    and "req_textContent data = Some text_content" and "text_content \<noteq> []"
    and "md = (case req_metadata data of None \<Rightarrow> [] | Some m \<Rightarrow> m)"
    and "line = json_dumps e (injection_record e (uuid4 e (uuid_count st)) text_content md) @ nl"
    and "logged = snd (append_to_jsonl e st project version text_content md)"
  shows "delta_indexes logged = delta_indexes st \<and> delta_store logged = delta_store st \<and>
    (log_writable e \<longrightarrow>
       log_has logged (inject_dir project version) line \<and>
       fst (inject e cfg st data) = StatusOk \<and>
       inject_files (snd (inject e cfg st data)) = inject_files logged) \<and>
    (\<not> log_writable e \<longrightarrow>
       inject e cfg st data = (InternalError OSError, logged) \<and>
       (\<forall>d l. log_has logged d l = log_has st d l) \<and>
       delta_indexes (snd (inject e cfg st data)) = delta_indexes st \<and>
       delta_store (snd (inject e cfg st data)) = delta_store st) \<and>
    (delta_indexes (snd (inject e cfg st data)) \<noteq> delta_indexes st \<or>
     delta_store (snd (inject e cfg st data)) \<noteq> delta_store st \<longrightarrow>
       log_has (snd (inject e cfg st data)) (inject_dir project version) line)"
proof -
  have fields: "truthy (req_project data)" "truthy (req_version data)"
    "truthy (req_textContent data)" "str_of (req_project data) = project"
    "str_of (req_version data) = version" "str_of (req_textContent data) = text_content"
    using assms(1-6) by (simp_all add: truthy_def str_of_def)
  have untouched: "delta_indexes logged = delta_indexes st \<and> delta_store logged = delta_store st"
    by (simp add: assms(9) append_to_jsonl_def Let_def)
  show ?thesis
  proof (cases "log_writable e")
    case True
    have has: "log_has logged (inject_dir project version) line"
      using True by (simp add: assms(8,9) append_to_jsonl_def Let_def log_has_def append_line_has)
    have ap: "append_to_jsonl e st project version text_content md = (Inr (), logged)"
      using True by (simp add: assms(9) append_to_jsonl_def Let_def)
    have ok: "fst (inject e cfg st data) = StatusOk"
      and files: "inject_files (snd (inject e cfg st data)) = inject_files logged"
      using fields ap by (simp_all add: inject_def Let_def assms(7) [symmetric])
    from files has have "log_has (snd (inject e cfg st data)) (inject_dir project version) line"
      by (simp add: log_has_def)
    with True untouched has ok files show ?thesis by simp
  next
    case False
    have ap: "append_to_jsonl e st project version text_content md = (Inl OSError, logged)"
      using False by (simp add: assms(9) append_to_jsonl_def Let_def)
    have fail: "inject e cfg st data = (InternalError OSError, logged)"
      using fields ap by (simp add: inject_def Let_def assms(7) [symmetric])
    note unwritable = False
    have same: "\<forall>d l. log_has logged d l = log_has st d l"
    proof (intro allI)
      fix d l
      show "log_has logged d l = log_has st d l"
      proof (cases "d = inject_dir project version")
        case True
        with unwritable show ?thesis
          by (cases "inject_files st d")
            (simp_all add: assms(9) append_to_jsonl_def Let_def log_has_def)
      next
        case False
        with unwritable show ?thesis
          by (simp add: assms(9) append_to_jsonl_def Let_def log_has_def)
      qed
    qed
    from False untouched fail same show ?thesis by simp
  qed
qed

theorem inject_write_then_index_witness:
  "inject (sample_env False) default_config empty_state inject_request
     = (InternalError OSError,
        snd (append_to_jsonl (sample_env False) empty_state ''k8s'' ''1.2'' ''X'' [])) \<and>
   delta_indexes (snd (inject (sample_env False) default_config empty_state inject_request))
     = delta_indexes empty_state \<and>
   delta_store (snd (inject (sample_env False) default_config empty_state inject_request))
     = delta_store empty_state \<and>
   fst (inject (sample_env True) default_config empty_state inject_request) = StatusOk \<and>
   log_has (snd (inject (sample_env True) default_config empty_state inject_request))
     (inject_dir ''k8s'' ''1.2'')
     (json_dumps (sample_env True)
        (injection_record (sample_env True)
           (uuid4 (sample_env True) (uuid_count empty_state)) ''X'' []) @ nl)"
proof -
  have ne: "''k8s'' \<noteq> []" "''1.2'' \<noteq> []" "''X'' \<noteq> []" by simp_all
  have off: "\<not> log_writable (sample_env False)" and on: "log_writable (sample_env True)"
    by (simp_all add: sample_env_def)
  have differs: "delta_indexes (snd (inject (sample_env True) default_config empty_state
                    inject_request)) \<noteq> delta_indexes empty_state"
  proof -
    have "delta_indexes (snd (inject (sample_env True) default_config empty_state
            inject_request)) ''k8s-1-dot-2'' \<noteq> None"
      by (simp add: inject_def inject_request_def truthy_def str_of_def Let_def
          append_to_jsonl_def sample_env_def get_slug_k8s split: prod.splits)
    moreover have "delta_indexes empty_state ''k8s-1-dot-2'' = None"
      by (simp add: empty_state_def)
    ultimately show ?thesis by metis
  qed
  note failing = inject_write_then_index
    [OF inject_request_fields(1) ne(1) inject_request_fields(2) ne(2)
        inject_request_fields(3) ne(3) inject_request_fields(4) refl refl,
     of "sample_env False" empty_state default_config]
  note writing = inject_write_then_index
    [OF inject_request_fields(1) ne(1) inject_request_fields(2) ne(2)
        inject_request_fields(3) ne(3) inject_request_fields(4) refl refl,
     of "sample_env True" empty_state default_config]
  from failing writing off on differs show ?thesis by blast
qed

text \<open>
  C9 fails on the code. For the injection of \<open>X\<close> into \<open>k8s\<close> \<open>1.2\<close> on a fresh server, the line
  written to the log carries the first identifier drawn, and the document put into the
  delta index carries the second one: \<open>append_to_jsonl\<close> returns nothing, and line 443 draws
  an identifier of its own.
\<close>

theorem inject_record_id_is_not_chunk_id:
  "inject_files (snd (inject (sample_env True) default_config empty_state inject_request))
     [''k8s'', ''1-dot-2'']
     = Some [(''2026-01-01.jsonl'',
              [sample_dumps (JObj [(''id'', JStr ''uuid-x''),
                                   (''timestamp'', JStr ''2026-01-01T00:00:00''),
                                   (''text'', JStr ''X''), (''metadata'', JObj [])]) @ nl])] \<and>
   delta_indexes (snd (inject (sample_env True) default_config empty_state inject_request))
     ''k8s-1-dot-2''
     = Some [\<lparr>doc_text = ''X'', doc_metadata = [], doc_id = Some ''uuid-xx''\<rparr>] \<and>
   ''uuid-x'' \<noteq> ''uuid-xx''"
  by (simp add: inject_def inject_request_def truthy_def str_of_def Let_def
      append_to_jsonl_def injection_record_def sample_env_def sample_uuid_def
      empty_state_def get_slug_k8s inject_dir_def normalize_version_concat
      dot_to_marker_def)

end
